theory Spec2Isabelle
  imports Complex_Main
begin

section \<open>Python floats\<close>

text \<open>
  The strategy computes with Python floats, which are IEEE 754 binary64 numbers. A float
  is modelled by the real number it denotes, and every arithmetic operation rounds its
  exact result to the nearest binary64 number, ties to even (\<open>fl\<close>). Subnormal numbers
  are covered (the exponent is clamped at \<open>-1022\<close>); overflow to infinity is not: all
  quantities of the strategy (ratios in the unit interval, FLOPs counts, tokens) stay far
  below \<open>2 ^ 1024\<close>.
\<close>

fun bit_length :: "nat \<Rightarrow> nat" where
  "bit_length n = (if n = 0 then 0 else Suc (bit_length (n div 2)))"

declare bit_length.simps [simp del]

definition pow2 :: "int \<Rightarrow> real" where
  "pow2 e = (if 0 \<le> e then 2 ^ nat e else 1 / 2 ^ nat (- e))"

text \<open>The exponent \<open>e\<close> with \<open>2 ^ e \<le> \<bar>x\<bar> < 2 ^ (e + 1)\<close>, for \<open>x \<noteq> 0\<close>.\<close>

definition binade :: "real \<Rightarrow> int" where
  "binade x =
     (let a = \<bar>x\<bar> in
      if 1 \<le> a then int (bit_length (nat \<lfloor>a\<rfloor>)) - 1
      else (let b = int (bit_length (nat \<lfloor>1 / a\<rfloor>))
            in if a * 2 ^ nat (b - 1) = 1 then 1 - b else - b))"

text \<open>Rounding to the nearest integer, ties to the even one.\<close>

definition rne :: "real \<Rightarrow> int" where
  "rne y =
     (let f = \<lfloor>y\<rfloor>; d = y - of_int f
      in if d < 1 / 2 then f
         else if 1 / 2 < d then f + 1
         else if even f then f else f + 1)"

definition fl :: "real \<Rightarrow> real" where
  "fl x =
     (if x = 0 then 0
      else let u = pow2 (max (binade x) (- 1022) - 52)
           in of_int (rne (x / u)) * u)"

definition fadd :: "real \<Rightarrow> real \<Rightarrow> real" where
  "fadd a b = fl (a + b)"

definition fsub :: "real \<Rightarrow> real \<Rightarrow> real" where
  "fsub a b = fl (a - b)"

definition fmul :: "real \<Rightarrow> real \<Rightarrow> real" where
  "fmul a b = fl (a * b)"

text \<open>\<open>float(n)\<close> of a Python integer.\<close>

definition py_float :: "int \<Rightarrow> real" where
  "py_float n = fl (of_int n)"

text \<open>\<open>int(x)\<close> of a Python float: truncation towards zero.\<close>

definition py_int :: "real \<Rightarrow> int" where
  "py_int x = (if 0 \<le> x then \<lfloor>x\<rfloor> else \<lceil>x\<rceil>)"

text \<open>The literals \<open>0.01\<close> and \<open>1e-2\<close> denote the same binary64 number.\<close>

definition c_0_01 :: real where
  "c_0_01 = fl (1 / 100)"

section \<open>Errors\<close>

datatype error = AttributeError | KeyError | IndexError | ZeroDivisionError | TypeError

text \<open>True division \<open>a / b\<close> of floats raises on a zero divisor.\<close>

definition fdiv :: "real \<Rightarrow> real \<Rightarrow> error + real" where
  "fdiv a b = (if b = 0 then Inl ZeroDivisionError else Inr (fl (a / b)))"

section \<open>The ratio/token codec\<close>

text \<open>\<^verbatim>\<open>return [int(ratio / 0.01) for ratio in ratios]\<close>\<close>

definition ratio_to_token :: "real \<Rightarrow> int" where
  "ratio_to_token ratio = py_int (fl (ratio / c_0_01))"

definition ratios_to_tokens :: "real list \<Rightarrow> int list" where
  "ratios_to_tokens ratios = map ratio_to_token ratios"

text \<open>\<^verbatim>\<open>return [token * 0.01 for token in tokens]\<close>\<close>

definition token_to_ratio :: "int \<Rightarrow> real" where
  "token_to_ratio token = fmul (py_float token) c_0_01"

definition tokens_to_ratios :: "int list \<Rightarrow> real list" where
  "tokens_to_ratios tokens = map token_to_ratio tokens"

section \<open>Graphs, scope and context\<close>

type_synonym shape = "nat list"
type_synonym tensor = "real list"

text \<open>A Python dict in insertion order; a key is looked up with \<open>map_of\<close>.\<close>

type_synonym 'v py_dict = "(string \<times> 'v) list"

text \<open>
  Modelled from the spec: the graph wrapper is not part of the sources at hand. It
  enumerates its parameters, gives and sets the shape of a variable, keeps the
  conv-group bookkeeping that \<open>update_groups_of_conv\<close> recomputes from the shapes, and
  is compiled into an executable program.
\<close>

record graph =
  all_parameters :: "string list"
  var_shape :: "string \<rightharpoonup> shape"
  groups_of_conv :: "string \<rightharpoonup> nat"
  compiled :: nat

record search_context =
  eval_graph :: graph
  optimize_graph :: graph
  scope :: "string \<rightharpoonup> tensor"
  epoch_id :: int
  eval_results :: "string \<rightharpoonup> real list"
  skip_training :: bool

text \<open>
  The controller is an external collaborator. Its state is the log of the calls made to
  it; what it proposes and what it holds as best tokens are functions of that log.
\<close>

datatype ctl_call =
    Reset "int list" "int list"
  | Next_tokens
  | Update "int list option" real

text \<open>
  The collaborators the strategy calls but does not define: \<open>re.match\<close>, the FLOPs
  count and the conv-group bookkeeping of the graph wrapper, the inherited
  \<open>_prune_parameters\<close> and \<open>_prune_graph\<close>, and the controller. \<open>prune_parameters\<close>
  takes the graph, the scope, the parameter names, the ratios and the \<open>only_graph\<close> flag,
  and gives the new shapes, the new scope, and what it wrote into \<open>param_backup\<close> and
  into \<open>param_shape_backup\<close>. \<open>prune_graph g target\<close> gives the new state of \<open>g\<close>.
\<close>

record collaborators =
  re_match :: "string \<Rightarrow> string \<Rightarrow> bool"
  graph_flops :: "string list \<Rightarrow> (string \<rightharpoonup> shape) \<Rightarrow> (string \<rightharpoonup> nat) \<Rightarrow> nat"
  conv_groups :: "(string \<rightharpoonup> shape) \<Rightarrow> (string \<rightharpoonup> nat)"
  prune_parameters :: "graph \<Rightarrow> (string \<rightharpoonup> tensor) \<Rightarrow> string list \<Rightarrow> real list \<Rightarrow> bool
     \<Rightarrow> (string \<rightharpoonup> shape) \<times> (string \<rightharpoonup> tensor) \<times> tensor py_dict \<times> shape py_dict"
  prune_graph :: "graph \<Rightarrow> graph \<Rightarrow> graph"
  next_tokens :: "ctl_call list \<Rightarrow> int list"
  best_tokens :: "ctl_call list \<Rightarrow> int list"

definition flops :: "collaborators \<Rightarrow> graph \<Rightarrow> nat" where
  "flops D g = graph_flops D (all_parameters g) (var_shape g) (groups_of_conv g)"

text \<open>Modelled from the spec: the total parameter count of the graph.\<close>

definition numel_params :: "graph \<Rightarrow> nat" where
  "numel_params g =
     sum_list (map (\<lambda>p. case var_shape g p of None \<Rightarrow> 0 | Some sh \<Rightarrow> prod_list sh)
                   (all_parameters g))"

definition set_shape :: "graph \<Rightarrow> string \<Rightarrow> shape \<Rightarrow> graph" where
  "set_shape g p sh = g\<lparr>var_shape := (var_shape g)(p \<mapsto> sh)\<rparr>"

definition update_groups_of_conv :: "collaborators \<Rightarrow> graph \<Rightarrow> graph" where
  "update_groups_of_conv D g = g\<lparr>groups_of_conv := conv_groups D (var_shape g)\<rparr>"

definition compile :: "graph \<Rightarrow> graph" where
  "compile g = g\<lparr>compiled := Suc (compiled g)\<rparr>"

text \<open>
  \<^verbatim>\<open>for param in backup.keys(): graph.var(param).set_shape(backup[param])\<close>
\<close>

fun restore_shapes :: "graph \<Rightarrow> shape py_dict \<Rightarrow> string list \<Rightarrow> graph" where
  "restore_shapes g backup [] = g"
| "restore_shapes g backup (p # ps) =
     (case map_of backup p of
        None \<Rightarrow> restore_shapes g backup ps
      | Some sh \<Rightarrow> restore_shapes (set_shape g p sh) backup ps)"

text \<open>
  \<^verbatim>\<open>for param_name in backup.keys():
      scope.find_var(param_name).get_tensor().set(backup[param_name], place)\<close>
\<close>

fun restore_tensors :: "(string \<rightharpoonup> tensor) \<Rightarrow> tensor py_dict \<Rightarrow> string list
    \<Rightarrow> (string \<rightharpoonup> tensor)" where
  "restore_tensors sc backup [] = sc"
| "restore_tensors sc backup (p # ps) =
     (case map_of backup p of
        None \<Rightarrow> restore_tensors sc backup ps
      | Some t \<Rightarrow> restore_tensors (sc(p \<mapsto> t)) backup ps)"

section \<open>The strategy\<close>

text \<open>
  The attributes of \<open>AutoPruneStrategy\<close>, without their leading underscore.
  \<open>start_epoch\<close>, \<open>end_epoch\<close> and \<open>pruned_params\<close> are set by the inherited
  constructor from the arguments passed on to it. \<open>range_table\<close>, \<open>param_backup\<close> and
  \<open>param_shape_backup\<close> are not assigned by the constructor: \<open>None\<close> is the attribute
  that does not exist yet, and reading it raises \<open>AttributeError\<close>. The strategy is
  constructed with a controller.
\<close>

record auto_prune_strategy =
  start_epoch :: int
  end_epoch :: int
  pruned_params :: string
  max_ratio :: real
  min_ratio :: real
  controller :: "ctl_call list"
  metric_name :: string
  pruned_param_names :: "string list"
  retrain_epoch :: int
  current_tokens :: "int list option"
  range_table :: "int list option"
  param_backup :: "tensor py_dict option"
  param_shape_backup :: "shape py_dict option"

text \<open>\<open>__init__\<close>: the argument \<open>retrain_epoch_arg\<close> is not used.\<close>

definition init :: "ctl_call list \<Rightarrow> int \<Rightarrow> int \<Rightarrow> real \<Rightarrow> real \<Rightarrow> string \<Rightarrow> string \<Rightarrow> int
    \<Rightarrow> auto_prune_strategy" where
  "init controller_arg start_epoch_arg end_epoch_arg min_ratio_arg max_ratio_arg
        metric_name_arg pruned_params_arg retrain_epoch_arg =
     \<lparr>start_epoch = start_epoch_arg,
      end_epoch = end_epoch_arg,
      pruned_params = pruned_params_arg,
      max_ratio = max_ratio_arg,
      min_ratio = min_ratio_arg,
      controller = controller_arg,
      metric_name = metric_name_arg,
      pruned_param_names = [],
      retrain_epoch = 0,
      current_tokens = None,
      range_table = None,
      param_backup = None,
      param_shape_backup = None\<rparr>"

subsection \<open>The constraint evaluator\<close>

text \<open>
  \<open>_constrain_func\<close>. The result is the exception with the context as it is when raised,
  or the returned boolean with the context.
\<close>

definition constrain_func :: "collaborators \<Rightarrow> auto_prune_strategy \<Rightarrow> int list \<Rightarrow> search_context
    \<Rightarrow> (error \<times> search_context) + (bool \<times> search_context)" where
  "constrain_func D s tokens ctx =
     (let ori_flops = flops D (eval_graph ctx);
          ratios = tokens_to_ratios tokens;
          params = pruned_param_names s;
          (shapes', scope', tensor_backup, param_shape_backup) =
             prune_parameters D (eval_graph ctx) (scope ctx) params ratios True;
          g1 = (eval_graph ctx)\<lparr>var_shape := shapes'\<rparr>;
          g2 = update_groups_of_conv D g1;
          flops_after = flops D g2;
          g3 = restore_shapes g2 param_shape_backup (map fst param_shape_backup);
          ctx' = ctx\<lparr>eval_graph := g3, scope := scope'\<rparr>
      in case fdiv (py_float (int flops_after)) (py_float (int ori_flops)) of
           Inl e \<Rightarrow> Inl (e, ctx')
         | Inr q \<Rightarrow>
             (let flops_ratio = fsub 1 q
              in if min_ratio s \<le> flops_ratio \<and> flops_ratio \<le> max_ratio s
                 then Inr (True, ctx') else Inr (False, ctx')))"

subsection \<open>The uniform-ratio initializer\<close>

text \<open>
  One pass of the body of the loop of \<open>_get_uniform_ratios\<close> up to the restoring of the
  shapes: it gives \<open>pruned_flops\<close> and the context.
\<close>

definition uniform_trial :: "collaborators \<Rightarrow> string list \<Rightarrow> nat \<Rightarrow> nat \<Rightarrow> real list
    \<Rightarrow> search_context \<Rightarrow> (error \<times> search_context) + (real \<times> search_context)" where
  "uniform_trial D names flops0 model_size ratios ctx =
     (let (shapes', scope', tensor_backup, param_shape_backup) =
             prune_parameters D (eval_graph ctx) (scope ctx) names ratios True;
          g1 = (eval_graph ctx)\<lparr>var_shape := shapes'\<rparr>;
          ctx1 = ctx\<lparr>eval_graph := g1, scope := scope'\<rparr>
      in case fdiv (py_float (int (flops D g1))) (py_float (int flops0)) of
           Inl e \<Rightarrow> Inl (e, ctx1)
         | Inr q \<Rightarrow>
             (let pruned_flops = fsub 1 q
              in case fdiv (py_float (int (numel_params g1))) (py_float (int model_size)) of
                   Inl e \<Rightarrow> Inl (e, ctx1)
                 | Inr q' \<Rightarrow>
                     (let pruned_size = fsub 1 q';
                          g2 = restore_shapes g1 param_shape_backup (map fst param_shape_backup)
                      in Inr (pruned_flops, ctx1\<lparr>eval_graph := g2\<rparr>))))"

text \<open>
  The loop of \<open>_get_uniform_ratios\<close>, on \<open>min_ratio\<close>, \<open>max_ratio\<close>, \<open>ratios\<close> and the
  context. It has no iteration bound: \<open>None\<close> is the loop that never ends. The result
  holds the final \<open>ratios\<close>, \<open>min_ratio\<close> and \<open>max_ratio\<close>.
\<close>

partial_function (option) uniform_loop :: "collaborators \<Rightarrow> string list \<Rightarrow> real \<Rightarrow> nat \<Rightarrow> nat
    \<Rightarrow> real \<Rightarrow> real \<Rightarrow> real list option \<Rightarrow> search_context
    \<Rightarrow> ((error \<times> search_context) + (real list option \<times> real \<times> real \<times> search_context)) option"
where
  "uniform_loop D names target flops0 model_size min_r max_r ratios ctx =
     (if min_r < max_r then
        (let ratio = fl (fadd max_r min_r / 2);
             ratios' = replicate (length names) ratio
         in case uniform_trial D names flops0 model_size ratios' ctx of
              Inl e \<Rightarrow> Some (Inl e)
            | Inr (pruned_flops, ctx') \<Rightarrow>
                if \<bar>fsub pruned_flops target\<bar> < c_0_01
                then Some (Inr (Some ratios', min_r, max_r, ctx'))
                else if target < pruned_flops
                then uniform_loop D names target flops0 model_size min_r ratio (Some ratios') ctx'
                else uniform_loop D names target flops0 model_size ratio max_r (Some ratios') ctx')
      else Some (Inr (ratios, min_r, max_r, ctx)))"

declare uniform_loop.simps [code]

text \<open>
  \<open>_get_uniform_ratios\<close>. The logging statement after the loop iterates over \<open>ratios\<close>,
  which raises \<open>TypeError\<close> on \<open>None\<close>.
\<close>

definition get_uniform_ratios :: "collaborators \<Rightarrow> auto_prune_strategy \<Rightarrow> search_context
    \<Rightarrow> ((error \<times> search_context) + (real list \<times> search_context)) option" where
  "get_uniform_ratios D s ctx =
     (let target = fl (fadd (min_ratio s) (max_ratio s) / 2);
          flops0 = flops D (eval_graph ctx);
          model_size = numel_params (eval_graph ctx)
      in case uniform_loop D (pruned_param_names s) target flops0 model_size 0 1 None ctx of
           None \<Rightarrow> None
         | Some (Inl e) \<Rightarrow> Some (Inl e)
         | Some (Inr (ratios, min_r, max_r, ctx')) \<Rightarrow>
             (case ratios of
                None \<Rightarrow> Some (Inl (TypeError, ctx'))
              | Some rs \<Rightarrow> Some (Inr (rs, ctx'))))"

definition get_init_tokens :: "collaborators \<Rightarrow> auto_prune_strategy \<Rightarrow> search_context
    \<Rightarrow> ((error \<times> search_context) + (int list \<times> search_context)) option" where
  "get_init_tokens D s ctx =
     (case get_uniform_ratios D s ctx of
        None \<Rightarrow> None
      | Some (Inl e) \<Rightarrow> Some (Inl e)
      | Some (Inr (ratios, ctx')) \<Rightarrow> Some (Inr (ratios_to_tokens ratios, ctx')))"

subsection \<open>The hooks\<close>

type_synonym world = "auto_prune_strategy \<times> search_context"

text \<open>
  \<open>on_compression_begin\<close>. The constraint callable handed to \<open>reset\<close> is
  \<open>constrain_func\<close> above, bound to the context; the log keeps the range table and the
  tokens.
\<close>

definition on_compression_begin :: "collaborators \<Rightarrow> auto_prune_strategy \<Rightarrow> search_context
    \<Rightarrow> ((error \<times> world) + world) option" where
  "on_compression_begin D s ctx =
     (let s1 = s\<lparr>pruned_param_names :=
                  pruned_param_names s
                  @ filter (re_match D (pruned_params s)) (all_parameters (eval_graph ctx))\<rparr>
      in case get_init_tokens D s1 ctx of
           None \<Rightarrow> None
         | Some (Inl (e, ctx')) \<Rightarrow> Some (Inl (e, (s1, ctx')))
         | Some (Inr (tokens, ctx')) \<Rightarrow>
             Some (Inr (s1\<lparr>current_tokens := Some tokens,
                           range_table := Some tokens,
                           controller := controller s1 @ [Reset tokens tokens]\<rparr>, ctx')))"

definition triggers :: "auto_prune_strategy \<Rightarrow> search_context \<Rightarrow> bool" where
  "triggers s ctx \<longleftrightarrow>
     retrain_epoch s = 0 \<or> (epoch_id ctx - start_epoch s) mod retrain_epoch s = 0"

definition on_epoch_begin :: "collaborators \<Rightarrow> auto_prune_strategy \<Rightarrow> search_context \<Rightarrow> world" where
  "on_epoch_begin D s ctx =
     (if start_epoch s \<le> epoch_id ctx \<and> epoch_id ctx \<le> end_epoch s \<and> triggers s ctx then
        (let tokens = next_tokens D (controller s);
             s1 = s\<lparr>controller := controller s @ [Next_tokens], current_tokens := Some tokens\<rparr>;
             params = pruned_param_names s1;
             ratios = tokens_to_ratios tokens;
             (shapes', scope', tensor_backup, shape_backup) =
                prune_parameters D (optimize_graph ctx) (scope ctx) params ratios False;
             s2 = s1\<lparr>param_shape_backup := Some shape_backup, param_backup := Some tensor_backup\<rparr>;
             og1 = (optimize_graph ctx)\<lparr>var_shape := shapes'\<rparr>;
             eg1 = prune_graph D (eval_graph ctx) og1;
             og2 = update_groups_of_conv D og1;
             eg2 = update_groups_of_conv D eg1;
             og3 = compile og2
         in (s2, ctx\<lparr>eval_graph := eg2, optimize_graph := og3, scope := scope',
                     skip_training := (retrain_epoch s2 = 0)\<rparr>))
      else (s, ctx))"

text \<open>
  Modelled from the spec: \<open>_get_prune_ratios\<close> is inherited and not part of the sources
  at hand. It gives the selected parameters with the ratios decoded from the tokens.
\<close>

definition get_prune_ratios :: "auto_prune_strategy \<Rightarrow> int list \<Rightarrow> string list \<times> real list" where
  "get_prune_ratios s tokens = (pruned_param_names s, tokens_to_ratios tokens)"

text \<open>
  The first loop of the final branch of \<open>on_epoch_end\<close>. Its body reads
  \<open>self.param_backup\<close>, without the underscore, an attribute that is never assigned:
  the first pass raises \<open>AttributeError\<close>.
\<close>

fun restore_tensors_final :: "(string \<rightharpoonup> tensor) \<Rightarrow> string list \<Rightarrow> error + (string \<rightharpoonup> tensor)" where
  "restore_tensors_final sc [] = Inr sc"
| "restore_tensors_final sc (param_name # ps) = Inl AttributeError"

definition on_epoch_end_search :: "collaborators \<Rightarrow> auto_prune_strategy \<Rightarrow> search_context
    \<Rightarrow> (error \<times> world) + world" where
  "on_epoch_end_search D s ctx =
     (case eval_results ctx (metric_name s) of
        None \<Rightarrow> Inl (KeyError, (s, ctx))
      | Some results \<Rightarrow>
          if results = [] then Inl (IndexError, (s, ctx))
          else
            (let reward = last results;
                 s1 = s\<lparr>controller := controller s @ [Update (current_tokens s) reward]\<rparr>
             in case param_backup s1 of
                  None \<Rightarrow> Inl (AttributeError, (s1, ctx))
                | Some tensor_backup \<Rightarrow>
                    (let sc = restore_tensors (scope ctx) tensor_backup (map fst tensor_backup);
                         ctx1 = ctx\<lparr>scope := sc\<rparr>;
                         s2 = s1\<lparr>param_backup := Some []\<rparr>
                     in case param_shape_backup s2 of
                          None \<Rightarrow> Inl (AttributeError, (s2, ctx1))
                        | Some shape_backup \<Rightarrow>
                            (let og1 = restore_shapes (optimize_graph ctx1) shape_backup
                                         (map fst shape_backup);
                                 s3 = s2\<lparr>param_shape_backup := Some []\<rparr>;
                                 eg1 = prune_graph D (eval_graph ctx1) og1;
                                 og2 = update_groups_of_conv D og1;
                                 eg2 = update_groups_of_conv D eg1;
                                 og3 = compile og2
                             in Inr (s3, ctx1\<lparr>eval_graph := eg2, optimize_graph := og3\<rparr>)))))"

definition on_epoch_end_final :: "collaborators \<Rightarrow> auto_prune_strategy \<Rightarrow> search_context
    \<Rightarrow> (error \<times> world) + world" where
  "on_epoch_end_final D s ctx =
     (case param_backup s of
        None \<Rightarrow> Inl (AttributeError, (s, ctx))
      | Some tensor_backup \<Rightarrow>
          (case restore_tensors_final (scope ctx) (map fst tensor_backup) of
             Inl e \<Rightarrow> Inl (e, (s, ctx))
           | Inr sc \<Rightarrow>
               (let ctx1 = ctx\<lparr>scope := sc\<rparr>
                in case param_shape_backup s of
                     None \<Rightarrow> Inl (AttributeError, (s, ctx1))
                   | Some shape_backup \<Rightarrow>
                       (let eg1 = restore_shapes (eval_graph ctx1) shape_backup
                                    (map fst shape_backup);
                            og1 = restore_shapes (optimize_graph ctx1) shape_backup
                                    (map fst shape_backup);
                            og2 = update_groups_of_conv D og1;
                            eg2 = update_groups_of_conv D eg1;
                            (params, ratios) = get_prune_ratios s (best_tokens D (controller s));
                            (shapes', scope', tensor_backup', shape_backup') =
                               prune_parameters D og2 (scope ctx1) params ratios False;
                            og3 = og2\<lparr>var_shape := shapes'\<rparr>;
                            eg3 = prune_graph D eg2 og3;
                            og4 = update_groups_of_conv D og3;
                            eg4 = update_groups_of_conv D eg3;
                            og5 = compile og4
                        in Inr (s, ctx1\<lparr>eval_graph := eg4, optimize_graph := og5,
                                        scope := scope', skip_training := False\<rparr>)))))"

definition on_epoch_end :: "collaborators \<Rightarrow> auto_prune_strategy \<Rightarrow> search_context
    \<Rightarrow> (error \<times> world) + world" where
  "on_epoch_end D s ctx =
     (if start_epoch s \<le> epoch_id ctx \<and> epoch_id ctx < end_epoch s \<and> triggers s ctx
      then on_epoch_end_search D s ctx
      else if epoch_id ctx = end_epoch s
      then on_epoch_end_final D s ctx
      else Inr (s, ctx))"

text \<open>The strategy and context a hook leaves behind, whether it returns or raises.\<close>

definition state_after :: "(error \<times> world) + world \<Rightarrow> world" where
  "state_after outcome = (case outcome of Inl (e, w) \<Rightarrow> w | Inr w \<Rightarrow> w)"

section \<open>The life cycle\<close>

text \<open>
  The strategies a run can hold: the constructed one, and what the hooks make of it,
  whether they return or raise.
\<close>

inductive reachable :: "collaborators \<Rightarrow> auto_prune_strategy \<Rightarrow> bool" for D where
  constructed: "reachable D (init c a b mn mx m p re)"
| compression_begun:
    "reachable D s \<Longrightarrow> on_compression_begin D s ctx = Some (Inr (s', ctx')) \<Longrightarrow> reachable D s'"
| compression_raised:
    "reachable D s \<Longrightarrow> on_compression_begin D s ctx = Some (Inl (e, (s', ctx'))) \<Longrightarrow> reachable D s'"
| epoch_begun: "reachable D s \<Longrightarrow> on_epoch_begin D s ctx = (s', ctx') \<Longrightarrow> reachable D s'"
| epoch_ended: "reachable D s \<Longrightarrow> on_epoch_end D s ctx = Inr (s', ctx') \<Longrightarrow> reachable D s'"
| epoch_end_raised:
    "reachable D s \<Longrightarrow> on_epoch_end D s ctx = Inl (e, (s', ctx')) \<Longrightarrow> reachable D s'"

text \<open>
  The contract of the pruner on one call: the backup holds the prior value of every entry
  it names, and no other entry has changed.
\<close>

definition backup_covers :: "(string \<rightharpoonup> 'v) \<Rightarrow> (string \<rightharpoonup> 'v) \<Rightarrow> 'v py_dict \<Rightarrow> bool" where
  "backup_covers before after backup \<longleftrightarrow>
     (\<forall>k. if k \<in> fst ` set backup then map_of backup k = before k else after k = before k)"

section \<open>Example collaborators\<close>

text \<open>\<open>re.match\<close> on a pattern without metacharacters: the pattern is a prefix of the name.\<close>

definition literal_match :: "string \<Rightarrow> string \<Rightarrow> bool" where
  "literal_match pat name \<longleftrightarrow> take (length pat) name = pat"

text \<open>
  A FLOPs count that reads the group count of a depthwise convolution from the
  bookkeeping, and the filter count of any other convolution from its shape.
\<close>

definition example_flops :: "string list \<Rightarrow> (string \<rightharpoonup> shape) \<Rightarrow> (string \<rightharpoonup> nat) \<Rightarrow> nat" where
  "example_flops params shapes groups =
     sum_list (map (\<lambda>p. case shapes p of
                           None \<Rightarrow> 0
                         | Some sh \<Rightarrow> (case groups p of
                                         None \<Rightarrow> 2 * prod_list sh
                                       | Some g \<Rightarrow> 2 * g * prod_list (tl sh)))
                   params)"

text \<open>A filter of shape \<open>[n, 1, ...]\<close> belongs to a depthwise convolution of \<open>n\<close> groups.\<close>

definition example_groups :: "(string \<rightharpoonup> shape) \<Rightarrow> (string \<rightharpoonup> nat)" where
  "example_groups shapes =
     (\<lambda>p. case shapes p of
             None \<Rightarrow> None
           | Some sh \<Rightarrow> (case sh of
                           [] \<Rightarrow> None
                         | n # dims \<Rightarrow> (case dims of
                                         [] \<Rightarrow> None
                                       | c # ds \<Rightarrow> if c = 1 then Some n else None)))"

text \<open>
  A pruner that removes \<open>round(n * ratio)\<close> of the \<open>n\<close> filters of each parameter, once
  per name, and records the prior shape and, unless \<open>only_graph\<close>, the prior tensor.
\<close>

fun example_prune_loop :: "(string \<times> real) list \<Rightarrow> bool
    \<Rightarrow> (string \<rightharpoonup> shape) \<times> (string \<rightharpoonup> tensor) \<times> tensor py_dict \<times> shape py_dict
    \<Rightarrow> (string \<rightharpoonup> shape) \<times> (string \<rightharpoonup> tensor) \<times> tensor py_dict \<times> shape py_dict" where
  "example_prune_loop [] only_graph st = st"
| "example_prune_loop ((p, ratio) # rest) only_graph (shapes, sc, tb, sb) =
     (if p \<in> fst ` set sb then example_prune_loop rest only_graph (shapes, sc, tb, sb)
      else case shapes p of
             None \<Rightarrow> example_prune_loop rest only_graph (shapes, sc, tb, sb)
           | Some sh \<Rightarrow>
               (case sh of
                  [] \<Rightarrow> example_prune_loop rest only_graph (shapes, sc, tb, sb)
                | n # dims \<Rightarrow>
                    (let keep = n - nat (rne (fmul (py_float (int n)) ratio));
                         shapes' = shapes(p \<mapsto> keep # dims)
                     in if only_graph
                        then example_prune_loop rest only_graph (shapes', sc, tb, sb @ [(p, sh)])
                        else (case sc p of
                                None \<Rightarrow> example_prune_loop rest only_graph
                                          (shapes', sc, tb, sb @ [(p, sh)])
                              | Some t \<Rightarrow> example_prune_loop rest only_graph
                                          (shapes', sc(p \<mapsto> take (keep * prod_list dims) t),
                                           tb @ [(p, t)], sb @ [(p, sh)])))))"

definition example_prune :: "graph \<Rightarrow> (string \<rightharpoonup> tensor) \<Rightarrow> string list \<Rightarrow> real list \<Rightarrow> bool
    \<Rightarrow> (string \<rightharpoonup> shape) \<times> (string \<rightharpoonup> tensor) \<times> tensor py_dict \<times> shape py_dict" where
  "example_prune g sc params ratios only_graph =
     example_prune_loop (zip params ratios) only_graph (var_shape g, sc, [], [])"

text \<open>The structural mirror: the parameters of \<open>g\<close> take the shapes they have in the target.\<close>

definition example_prune_graph :: "graph \<Rightarrow> graph \<Rightarrow> graph" where
  "example_prune_graph g target =
     g\<lparr>var_shape := (\<lambda>p. if p \<in> set (all_parameters g) then var_shape target p
                          else var_shape g p)\<rparr>"

text \<open>
  A controller that proposes one token more than its last proposal for every parameter,
  and keeps as best the tokens of its last update.
\<close>

fun example_last_tokens :: "ctl_call list \<Rightarrow> int list \<Rightarrow> int list" where
  "example_last_tokens [] acc = acc"
| "example_last_tokens (Reset table tokens # calls) acc = example_last_tokens calls tokens"
| "example_last_tokens (Next_tokens # calls) acc = example_last_tokens calls (map (\<lambda>t. t + 1) acc)"
| "example_last_tokens (Update tokens reward # calls) acc = example_last_tokens calls acc"

fun example_best :: "ctl_call list \<Rightarrow> int list \<Rightarrow> int list" where
  "example_best [] acc = acc"
| "example_best (Reset table tokens # calls) acc = example_best calls tokens"
| "example_best (Next_tokens # calls) acc = example_best calls acc"
| "example_best (Update tokens reward # calls) acc =
     example_best calls (case tokens of None \<Rightarrow> acc | Some ts \<Rightarrow> ts)"

definition example_collaborators :: collaborators where
  "example_collaborators =
     \<lparr>re_match = literal_match,
      graph_flops = example_flops,
      conv_groups = example_groups,
      prune_parameters = example_prune,
      prune_graph = example_prune_graph,
      next_tokens = (\<lambda>log. map (\<lambda>t. t + 1) (example_last_tokens log [])),
      best_tokens = (\<lambda>log. example_best log [])\<rparr>"

text \<open>
  A graph with a convolution of 4 filters, a depthwise convolution of 4 groups and a
  fully connected layer, and a context that holds it as both graphs.
\<close>

definition example_graph :: graph where
  "example_graph =
     \<lparr>all_parameters = [''conv1_weights'', ''conv2_dw_weights'', ''fc_w''],
      var_shape = [''conv1_weights'' \<mapsto> [4, 2, 1, 1],
                   ''conv2_dw_weights'' \<mapsto> [4, 1, 1, 1],
                   ''fc_w'' \<mapsto> [2, 2]],
      groups_of_conv = [''conv2_dw_weights'' \<mapsto> 4],
      compiled = 0\<rparr>"

definition example_scope :: "string \<rightharpoonup> tensor" where
  "example_scope =
     [''conv1_weights'' \<mapsto> [1, 2, 3, 4, 5, 6, 7, 8],
      ''conv2_dw_weights'' \<mapsto> [1, 2, 3, 4],
      ''fc_w'' \<mapsto> [1, 2, 3, 4]]"

definition example_context :: "int \<Rightarrow> search_context" where
  "example_context epoch =
     \<lparr>eval_graph = example_graph,
      optimize_graph = example_graph,
      scope = example_scope,
      epoch_id = epoch,
      eval_results = [''top1_acc'' \<mapsto> [1 / 2, 3 / 4]],
      skip_training = False\<rparr>"

text \<open>
  The strategy as \<open>on_compression_begin\<close> leaves it on the example graph, with the two
  convolutions selected, when the initializer gives \<open>tokens\<close>.
\<close>

definition example_strategy :: "int list \<Rightarrow> auto_prune_strategy" where
  "example_strategy tokens =
     (init [] 0 10 (1 / 2) (fl (7 / 10)) ''top1_acc'' ''conv'' 0)
       \<lparr>pruned_param_names := [''conv1_weights'', ''conv2_dw_weights''],
        current_tokens := Some tokens,
        range_table := Some tokens,
        controller := [Reset tokens tokens]\<rparr>"

text \<open>
  The example context at epoch 3 with an optimization graph whose bookkeeping gives the
  depthwise convolution 2 groups while its filter has 4, and the example context at epoch 3
  before any evaluation result is recorded.
\<close>

definition stale_groups_context :: search_context where
  "stale_groups_context =
     (example_context 3)
       \<lparr>optimize_graph := example_graph\<lparr>groups_of_conv := [''conv2_dw_weights'' \<mapsto> 2]\<rparr>\<rparr>"

definition no_metric_context :: search_context where
  "no_metric_context = (example_context 3)\<lparr>eval_results := Map.empty\<rparr>"

section \<open>The search on a curve\<close>

text \<open>
  The loop of \<open>_get_uniform_ratios\<close> run for at most a number of passes on a curve that
  gives \<open>pruned_flops\<close> for each ratio: \<open>Inr\<close> is the state \<open>(min_ratio, max_ratio, ratio)\<close>
  on leaving the loop, \<open>Inl\<close> the state reached when the passes are used up.
\<close>

fun bisect :: "(real \<Rightarrow> real) \<Rightarrow> real \<Rightarrow> nat \<Rightarrow> real \<times> real \<times> real option
    \<Rightarrow> (real \<times> real \<times> real option) + (real \<times> real \<times> real option)" where
  "bisect curve target 0 st = Inl st"
| "bisect curve target (Suc k) (min_r, max_r, r) =
     (if min_r < max_r then
        (let ratio = fl (fadd max_r min_r / 2); pruned_flops = curve ratio
         in if \<bar>fsub pruned_flops target\<bar> < c_0_01 then Inr (min_r, max_r, Some ratio)
            else if target < pruned_flops then bisect curve target k (min_r, ratio, Some ratio)
            else bisect curve target k (ratio, max_r, Some ratio))
      else Inr (min_r, max_r, r))"

section \<open>The retrain interval\<close>

lemma on_epoch_begin_fields:
  "on_epoch_begin D s ctx = (s', ctx') \<Longrightarrow>
     retrain_epoch s' = retrain_epoch s \<and> start_epoch s' = start_epoch s \<and>
     end_epoch s' = end_epoch s \<and> metric_name s' = metric_name s \<and>
     pruned_param_names s' = pruned_param_names s \<and> pruned_params s' = pruned_params s \<and>
     epoch_id ctx' = epoch_id ctx \<and> eval_results ctx' = eval_results ctx"
  by (auto simp: on_epoch_begin_def Let_def split: if_splits prod.splits)

lemma on_epoch_end_search_retrain:
  "on_epoch_end_search D s ctx = Inr (s', ctx') \<Longrightarrow> retrain_epoch s' = retrain_epoch s"
  "on_epoch_end_search D s ctx = Inl (e, (s', ctx')) \<Longrightarrow> retrain_epoch s' = retrain_epoch s"
  by (auto simp: on_epoch_end_search_def Let_def split: if_splits option.splits)

lemma on_epoch_end_final_strategy:
  "on_epoch_end_final D s ctx = Inr (s', ctx') \<Longrightarrow> s' = s"
  "on_epoch_end_final D s ctx = Inl (e, (s', ctx')) \<Longrightarrow> s' = s"
  by (auto simp: on_epoch_end_final_def Let_def split: if_splits option.splits sum.splits prod.splits)

lemma on_epoch_end_retrain:
  "on_epoch_end D s ctx = Inr (s', ctx') \<Longrightarrow> retrain_epoch s' = retrain_epoch s"
  "on_epoch_end D s ctx = Inl (e, (s', ctx')) \<Longrightarrow> retrain_epoch s' = retrain_epoch s"
  by (auto simp: on_epoch_end_def dest: on_epoch_end_search_retrain on_epoch_end_final_strategy
      split: if_splits)

lemma on_compression_begin_retrain:
  "on_compression_begin D s ctx = Some (Inr (s', ctx')) \<Longrightarrow> retrain_epoch s' = retrain_epoch s"
  "on_compression_begin D s ctx = Some (Inl (e, (s', ctx'))) \<Longrightarrow> retrain_epoch s' = retrain_epoch s"
  by (auto simp: on_compression_begin_def Let_def split: option.splits sum.splits prod.splits)

lemma reachable_retrain_epoch: "reachable D s \<Longrightarrow> retrain_epoch s = 0"
proof (induction rule: reachable.induct)
  case (constructed c a b mn mx m p re)
  show ?case by (simp add: init_def)
next
  case (epoch_begun s ctx s' ctx')
  then show ?case using on_epoch_begin_fields by metis
qed (auto dest: on_compression_begin_retrain on_epoch_end_retrain)

lemma on_epoch_begin_skip_training:
  assumes "start_epoch s \<le> epoch_id ctx" and "epoch_id ctx \<le> end_epoch s" and "triggers s ctx"
  shows "skip_training (snd (on_epoch_begin D s ctx)) = (retrain_epoch s = 0)"
  using assms by (simp add: on_epoch_begin_def Let_def split: prod.splits)

text \<open>
  Claim C4. Whatever \<open>retrain_epoch\<close> argument the constructor is given, the strategy's
  \<open>_retrain_epoch\<close> is 0, it stays 0 through every hook, and so every \<open>on_epoch_begin\<close>
  inside the epoch window sets the context's \<open>skip_training\<close> flag.
\<close>

theorem retrain_epoch_always_zero:
  assumes "reachable D s" and "start_epoch s \<le> epoch_id ctx" and "epoch_id ctx \<le> end_epoch s"
  shows "retrain_epoch (init c a b mn mx m p re) = 0 \<and> retrain_epoch s = 0
         \<and> skip_training (snd (on_epoch_begin D s ctx))"
proof -
  have z: "retrain_epoch s = 0" using assms(1) by (rule reachable_retrain_epoch)
  then have "triggers s ctx" by (simp add: triggers_def)
  with assms z show ?thesis
    by (simp add: on_epoch_begin_skip_training init_def)
qed

theorem retrain_epoch_always_zero_witness:
  "retrain_epoch (init [] 0 10 (1 / 2) (fl (7 / 10)) ''top1_acc'' ''conv'' 5) = 0
   \<and> skip_training (snd (on_epoch_begin example_collaborators
        (init [] 0 10 (1 / 2) (fl (7 / 10)) ''top1_acc'' ''conv'' 5) (example_context 3)))"
proof -
  have r: "reachable example_collaborators (init [] 0 10 (1 / 2) (fl (7 / 10)) ''top1_acc'' ''conv'' 5)"
    by (rule constructed)
  have a: "start_epoch (init [] 0 10 (1 / 2) (fl (7 / 10)) ''top1_acc'' ''conv'' 5) \<le> epoch_id (example_context 3)"
    by (simp add: init_def example_context_def)
  have b: "epoch_id (example_context 3) \<le> end_epoch (init [] 0 10 (1 / 2) (fl (7 / 10)) ''top1_acc'' ''conv'' 5)"
    by (simp add: init_def example_context_def)
  from retrain_epoch_always_zero [OF r a b, of "[]" 0 10 "1 / 2" "fl (7 / 10)" "''top1_acc''" "''conv''" 5]
  show ?thesis by blast
qed

section \<open>The trial of the last epoch\<close>

lemma on_epoch_begin_opens_trial:
  assumes "start_epoch s \<le> epoch_id ctx" and "epoch_id ctx \<le> end_epoch s" and "triggers s ctx"
    and "on_epoch_begin D s ctx = (s1, ctx1)"
  shows "current_tokens s1 = Some (next_tokens D (controller s))"
    and "controller s1 = controller s @ [Next_tokens]"
    and "param_backup s1 \<noteq> None" and "param_shape_backup s1 \<noteq> None"
  using assms by (auto simp: on_epoch_begin_def Let_def split: prod.splits)

lemma on_epoch_end_at_end_epoch:
  "epoch_id ctx = end_epoch s \<Longrightarrow> on_epoch_end D s ctx = on_epoch_end_final D s ctx"
  by (simp add: on_epoch_end_def)

lemma on_epoch_end_final_world:
  "fst (state_after (on_epoch_end_final D s ctx)) = s"
  by (cases "on_epoch_end_final D s ctx")
     (auto simp: state_after_def dest: on_epoch_end_final_strategy)

text \<open>
  Claim C10. At \<open>epoch_id = end_epoch\<close> the guard of \<open>on_epoch_begin\<close> holds, so a trial is
  opened with the tokens the controller proposes; \<open>on_epoch_end\<close> of that epoch takes the
  final branch, and whether it returns or raises, the log of the controller holds no
  \<open>update\<close> for that trial.
\<close>

theorem final_trial_never_reported:
  assumes "epoch_id ctx = end_epoch s" and "start_epoch s \<le> end_epoch s" and "triggers s ctx"
    and "on_epoch_begin D s ctx = (s1, ctx1)"
    and "epoch_id ctx2 = end_epoch s"
  shows "current_tokens s1 = Some (next_tokens D (controller s))
         \<and> on_epoch_end D s1 ctx2 = on_epoch_end_final D s1 ctx2
         \<and> controller (fst (state_after (on_epoch_end D s1 ctx2))) = controller s @ [Next_tokens]"
proof -
  have w: "start_epoch s \<le> epoch_id ctx" "epoch_id ctx \<le> end_epoch s"
    using assms(1,2) by simp_all
  have e: "end_epoch s1 = end_epoch s"
    using on_epoch_begin_fields [OF assms(4)] by simp
  then have f: "on_epoch_end D s1 ctx2 = on_epoch_end_final D s1 ctx2"
    using assms(5) by (simp add: on_epoch_end_at_end_epoch)
  show ?thesis
    using on_epoch_begin_opens_trial(1,2) [OF w assms(3,4)] f
    by (simp add: on_epoch_end_final_world)
qed

theorem final_trial_never_reported_witness:
  "current_tokens (fst (on_epoch_begin example_collaborators
       (init [Reset [49, 49] [49, 49]] 0 10 (1 / 2) (fl (7 / 10)) ''top1_acc'' ''conv'' 0)
       (example_context 10)))
     = Some (next_tokens example_collaborators [Reset [49, 49] [49, 49]])
   \<and> controller (fst (state_after (on_epoch_end example_collaborators
       (fst (on_epoch_begin example_collaborators
          (init [Reset [49, 49] [49, 49]] 0 10 (1 / 2) (fl (7 / 10)) ''top1_acc'' ''conv'' 0)
          (example_context 10)))
       (example_context 10))))
     = [Reset [49, 49] [49, 49]] @ [Next_tokens]"
proof -
  let ?s = "init [Reset [49, 49] [49, 49]] 0 10 (1 / 2) (fl (7 / 10)) ''top1_acc'' ''conv'' 0"
  let ?c = "example_context 10"
  have a: "epoch_id ?c = end_epoch ?s" by (simp add: init_def example_context_def)
  have b: "start_epoch ?s \<le> end_epoch ?s" by (simp add: init_def)
  have c: "triggers ?s ?c" by (simp add: triggers_def init_def)
  have d: "on_epoch_begin example_collaborators ?s ?c
           = (fst (on_epoch_begin example_collaborators ?s ?c),
              snd (on_epoch_begin example_collaborators ?s ?c))" by simp
  have k: "controller ?s = [Reset [49, 49] [49, 49]]" by (simp add: init_def)
  from final_trial_never_reported [OF a b c d a, unfolded k] show ?thesis by blast
qed

section \<open>A trial and its restore\<close>

lemma restore_shapes_frame:
  "all_parameters (restore_shapes g backup ks) = all_parameters g"
  "groups_of_conv (restore_shapes g backup ks) = groups_of_conv g"
  "compiled (restore_shapes g backup ks) = compiled g"
  by (induction ks arbitrary: g; simp add: set_shape_def split: option.splits)+

lemma restore_shapes_lookup:
  "var_shape (restore_shapes g backup ks) k =
     (if k \<in> set ks \<and> map_of backup k \<noteq> None then map_of backup k else var_shape g k)"
  by (induction ks arbitrary: g) (auto simp: set_shape_def split: option.splits)

lemma restore_shapes_keys:
  "var_shape (restore_shapes g backup (map fst backup)) = var_shape g ++ map_of backup"
proof
  fix k
  show "var_shape (restore_shapes g backup (map fst backup)) k = (var_shape g ++ map_of backup) k"
    by (auto simp: restore_shapes_lookup map_add_def split: option.splits
        dest: map_of_SomeD intro: rev_image_eqI)
qed

lemma restore_tensors_lookup:
  "restore_tensors sc backup ks k =
     (if k \<in> set ks \<and> map_of backup k \<noteq> None then map_of backup k else sc k)"
  by (induction ks arbitrary: sc) (auto split: option.splits)

lemma restore_tensors_keys:
  "restore_tensors sc backup (map fst backup) = sc ++ map_of backup"
proof
  fix k
  show "restore_tensors sc backup (map fst backup) k = (sc ++ map_of backup) k"
    by (auto simp: restore_tensors_lookup map_add_def split: option.splits
        dest: map_of_SomeD intro: rev_image_eqI)
qed

lemma backup_covers_restores:
  assumes "backup_covers before after backup"
  shows "after ++ map_of backup = before"
proof
  fix k
  from assms have c: "if k \<in> fst ` set backup then map_of backup k = before k else after k = before k"
    by (simp add: backup_covers_def)
  show "(after ++ map_of backup) k = before k"
  proof (cases "k \<in> fst ` set backup")
    case True
    then obtain v where "map_of backup k = Some v"
      by (metis map_of_eq_None_iff not_None_eq)
    with c True have "before k = Some v" by simp
    with c True show ?thesis by (simp add: map_add_def)
  next
    case False
    then have "map_of backup k = None" by (simp add: map_of_eq_None_iff)
    with c False show ?thesis by (simp add: map_add_def)
  qed
qed

lemma on_epoch_begin_trial:
  assumes "start_epoch s \<le> epoch_id ctx" and "epoch_id ctx \<le> end_epoch s" and "triggers s ctx"
    and "prune_parameters D (optimize_graph ctx) (scope ctx) (pruned_param_names s)
           (tokens_to_ratios (next_tokens D (controller s))) False = (shapes', scope', tb, sb)"
    and "on_epoch_begin D s ctx = (s1, ctx1)"
  shows "param_backup s1 = Some tb" and "param_shape_backup s1 = Some sb"
    and "scope ctx1 = scope'"
    and "optimize_graph ctx1 =
           compile (update_groups_of_conv D ((optimize_graph ctx)\<lparr>var_shape := shapes'\<rparr>))"
  using assms by (auto simp: on_epoch_begin_def Let_def)

lemma on_epoch_end_search_restores:
  assumes "on_epoch_end_search D s ctx = Inr (s', ctx')"
    and "param_backup s = Some tb" and "param_shape_backup s = Some sb"
  shows "param_backup s' = Some []" and "param_shape_backup s' = Some []"
    and "scope ctx' = scope ctx ++ map_of tb"
    and "optimize_graph ctx' =
           compile (update_groups_of_conv D (restore_shapes (optimize_graph ctx) sb (map fst sb)))"
  using assms
  by (auto simp: on_epoch_end_search_def Let_def restore_tensors_keys
      split: option.splits if_splits)

lemma backup_covers_append:
  assumes "backup_covers before after backup" and "p \<notin> fst ` set backup" and "after p = Some w"
  shows "backup_covers before (after(p \<mapsto> v)) (backup @ [(p, w)])"
  unfolding backup_covers_def
proof
  fix k
  from assms(1) have c: "if k \<in> fst ` set backup then map_of backup k = before k else after k = before k"
    by (simp add: backup_covers_def)
  from assms(1,2,3) have bp: "before p = Some w"
    by (auto simp: backup_covers_def split: if_splits)
  have np: "map_of backup p = None" using assms(2) by (simp add: map_of_eq_None_iff)
  show "if k \<in> fst ` set (backup @ [(p, w)]) then map_of (backup @ [(p, w)]) k = before k
        else (after(p \<mapsto> v)) k = before k"
  proof (cases "k = p")
    case True
    then show ?thesis using bp np by (simp add: map_add_def)
  next
    case kp: False
    show ?thesis
    proof (cases "k \<in> fst ` set backup")
      case True
      then obtain u where mu: "map_of backup k = Some u"
        by (metis map_of_eq_None_iff not_None_eq)
      have bk: "before k = Some u" using c True mu by simp
      have m: "map_of (backup @ [(p, w)]) k = Some u" using mu by (simp add: map_add_def)
      have "k \<in> fst ` set (backup @ [(p, w)])" using True by auto
      then show ?thesis using m bk by simp
    next
      case False
      have "k \<notin> fst ` set (backup @ [(p, w)])" using False kp by auto
      then show ?thesis using c False kp by simp
    qed
  qed
qed

lemma example_prune_step:
  assumes "backup_covers shapes0 shapes sb" and "backup_covers sc0 sc tb"
    and "fst ` set tb \<subseteq> fst ` set sb"
  shows "\<exists>shapes1 sc1 tb1 sb1.
           example_prune_loop ((p, ratio) # rest) False (shapes, sc, tb, sb)
             = example_prune_loop rest False (shapes1, sc1, tb1, sb1)
           \<and> backup_covers shapes0 shapes1 sb1 \<and> backup_covers sc0 sc1 tb1
           \<and> fst ` set tb1 \<subseteq> fst ` set sb1"
proof (cases "p \<in> fst ` set sb")
  case True
  then have "example_prune_loop ((p, ratio) # rest) False (shapes, sc, tb, sb)
             = example_prune_loop rest False (shapes, sc, tb, sb)" by simp
  with assms show ?thesis by blast
next
  case notin: False
  show ?thesis
  proof (cases "shapes p")
    case None
    with notin have "example_prune_loop ((p, ratio) # rest) False (shapes, sc, tb, sb)
             = example_prune_loop rest False (shapes, sc, tb, sb)" by simp
    with assms show ?thesis by blast
  next
    case (Some sh)
    note Ssh = Some
    show ?thesis
    proof (cases sh)
      case Nil
      with notin Ssh have "example_prune_loop ((p, ratio) # rest) False (shapes, sc, tb, sb)
             = example_prune_loop rest False (shapes, sc, tb, sb)" by simp
      with assms show ?thesis by blast
    next
      case (Cons n dims)
      define keep where "keep = n - nat (rne (fmul (py_float (int n)) ratio))"
      have cs: "backup_covers shapes0 (shapes(p \<mapsto> keep # dims)) (sb @ [(p, sh)])"
        using backup_covers_append [OF assms(1) notin Ssh] .
      show ?thesis
      proof (cases "sc p")
        case None
        have e: "example_prune_loop ((p, ratio) # rest) False (shapes, sc, tb, sb)
              = example_prune_loop rest False (shapes(p \<mapsto> keep # dims), sc, tb, sb @ [(p, sh)])"
          using notin Ssh Cons None by (simp add: keep_def Let_def)
        have sub: "fst ` set tb \<subseteq> fst ` set (sb @ [(p, sh)])" using assms(3) by auto
        from e cs assms(2) sub show ?thesis by blast
      next
        case (Some t)
        have pt: "p \<notin> fst ` set tb" using notin assms(3) by auto
        have e: "example_prune_loop ((p, ratio) # rest) False (shapes, sc, tb, sb)
              = example_prune_loop rest False
                  (shapes(p \<mapsto> keep # dims), sc(p \<mapsto> take (keep * prod_list dims) t),
                   tb @ [(p, t)], sb @ [(p, sh)])"
          using notin Ssh Cons Some by (simp add: keep_def Let_def)
        have ct: "backup_covers sc0 (sc(p \<mapsto> take (keep * prod_list dims) t)) (tb @ [(p, t)])"
          using backup_covers_append [OF assms(2) pt Some] .
        have sub: "fst ` set (tb @ [(p, t)]) \<subseteq> fst ` set (sb @ [(p, sh)])"
          using assms(3) by auto
        from e cs ct sub show ?thesis by blast
      qed
    qed
  qed
qed

lemma example_prune_loop_covers:
  assumes "backup_covers shapes0 shapes sb" and "backup_covers sc0 sc tb"
    and "fst ` set tb \<subseteq> fst ` set sb"
    and "example_prune_loop prs False (shapes, sc, tb, sb) = (shapes', sc', tb', sb')"
  shows "backup_covers shapes0 shapes' sb' \<and> backup_covers sc0 sc' tb'"
  using assms
proof (induction prs arbitrary: shapes sc tb sb)
  case Nil
  then show ?case by simp
next
  case (Cons pr rest)
  obtain p ratio where pr: "pr = (p, ratio)" by (cases pr)
  from example_prune_step [OF Cons.prems(1,2,3), of p ratio rest]
  obtain shapes1 sc1 tb1 sb1 where
    e: "example_prune_loop ((p, ratio) # rest) False (shapes, sc, tb, sb)
          = example_prune_loop rest False (shapes1, sc1, tb1, sb1)"
    and i: "backup_covers shapes0 shapes1 sb1" "backup_covers sc0 sc1 tb1"
      "fst ` set tb1 \<subseteq> fst ` set sb1"
    by blast
  from Cons.prems(4) e pr
  have "example_prune_loop rest False (shapes1, sc1, tb1, sb1) = (shapes', sc', tb', sb')" by simp
  from Cons.IH [OF i this] show ?case .
qed

lemma example_prune_covers:
  assumes "example_prune g sc params ratios False = (shapes', sc', tb, sb)"
  shows "backup_covers (var_shape g) shapes' sb \<and> backup_covers sc sc' tb"
proof -
  have a: "backup_covers (var_shape g) (var_shape g) []" by (simp add: backup_covers_def)
  have b: "backup_covers sc sc []" by (simp add: backup_covers_def)
  have c: "fst ` set ([] :: tensor py_dict) \<subseteq> fst ` set ([] :: shape py_dict)" by simp
  from example_prune_loop_covers [OF a b c assms [unfolded example_prune_def]]
  show ?thesis .
qed

lemma on_epoch_end_search_returns:
  assumes "eval_results ctx (metric_name s) = Some rs" and "rs \<noteq> []"
    and "param_backup s \<noteq> None" and "param_shape_backup s \<noteq> None"
  shows "on_epoch_end_search D s ctx = Inr (state_after (on_epoch_end_search D s ctx))"
  using assms by (auto simp: on_epoch_end_search_def Let_def state_after_def)

lemma example_graph_in_sync:
  "groups_of_conv example_graph = conv_groups example_collaborators (var_shape example_graph)"
  by (auto simp: example_graph_def example_collaborators_def example_groups_def fun_eq_iff)

text \<open>
  Claim C3, as amended. In the search window before \<open>end_epoch\<close>, when the pruner records
  in the two backups every shape and tensor it changes, the group bookkeeping of the
  optimization graph agrees with its shapes before the trial, and \<open>on_epoch_end\<close> returns
  (the metric has a result to read), \<open>on_epoch_begin\<close> followed by \<open>on_epoch_end\<close> leaves
  the shapes, the FLOPs and the parameter count of the optimization graph and the tensors
  of the scope as they were before the trial, and both backups empty.
\<close>

theorem trial_then_restore:
  assumes "start_epoch s \<le> epoch_id ctx" and "epoch_id ctx < end_epoch s" and "triggers s ctx"
    and "prune_parameters D (optimize_graph ctx) (scope ctx) (pruned_param_names s)
           (tokens_to_ratios (next_tokens D (controller s))) False = (shapes', scope', tb, sb)"
    and "backup_covers (var_shape (optimize_graph ctx)) shapes' sb"
    and "backup_covers (scope ctx) scope' tb"
    and "groups_of_conv (optimize_graph ctx) = conv_groups D (var_shape (optimize_graph ctx))"
    and "on_epoch_begin D s ctx = (s1, ctx1)"
    and "on_epoch_end D s1 ctx1 = Inr (s2, ctx2)"
  shows "var_shape (optimize_graph ctx2) = var_shape (optimize_graph ctx)
         \<and> flops D (optimize_graph ctx2) = flops D (optimize_graph ctx)
         \<and> numel_params (optimize_graph ctx2) = numel_params (optimize_graph ctx)
         \<and> scope ctx2 = scope ctx
         \<and> param_backup s2 = Some [] \<and> param_shape_backup s2 = Some []"
proof -
  have le: "epoch_id ctx \<le> end_epoch s" using assms(2) by simp
  note b = on_epoch_begin_trial [OF assms(1) le assms(3) assms(4) assms(8)]
  note f = on_epoch_begin_fields [OF assms(8)]
  have tr: "triggers s1 ctx1" using assms(3) f by (simp add: triggers_def)
  have "on_epoch_end D s1 ctx1 = on_epoch_end_search D s1 ctx1"
    using assms(1,2) f tr by (simp add: on_epoch_end_def)
  with assms(9) have e: "on_epoch_end_search D s1 ctx1 = Inr (s2, ctx2)" by simp
  note r = on_epoch_end_search_restores [OF e b(1) b(2)]
  have sc: "scope ctx2 = scope ctx"
    using r(3) b(3) backup_covers_restores [OF assms(6)] by simp
  have sh: "var_shape (optimize_graph ctx2) = var_shape (optimize_graph ctx)"
    using r(4) b(4) backup_covers_restores [OF assms(5)]
    by (simp add: compile_def update_groups_of_conv_def restore_shapes_keys)
  have pa: "all_parameters (optimize_graph ctx2) = all_parameters (optimize_graph ctx)"
    using r(4) b(4)
    by (simp add: compile_def update_groups_of_conv_def restore_shapes_frame)
  have gr: "groups_of_conv (optimize_graph ctx2) = groups_of_conv (optimize_graph ctx)"
    using r(4) sh assms(7)
    by (simp add: compile_def update_groups_of_conv_def restore_shapes_keys)
  show ?thesis
    using sc sh pa gr r(1,2) by (simp add: flops_def numel_params_def)
qed

theorem trial_then_restore_witness:
  "flops example_collaborators (optimize_graph (snd (state_after
      (on_epoch_end example_collaborators
         (fst (on_epoch_begin example_collaborators (example_strategy [49, 49]) (example_context 3)))
         (snd (on_epoch_begin example_collaborators (example_strategy [49, 49]) (example_context 3)))))))
     = flops example_collaborators (optimize_graph (example_context 3))
   \<and> param_shape_backup (fst (state_after
      (on_epoch_end example_collaborators
         (fst (on_epoch_begin example_collaborators (example_strategy [49, 49]) (example_context 3)))
         (snd (on_epoch_begin example_collaborators (example_strategy [49, 49]) (example_context 3))))))
     = Some []"
proof -
  let ?D = example_collaborators
  let ?s = "example_strategy [49, 49]"
  let ?c = "example_context 3"
  obtain s1 ctx1 where b: "on_epoch_begin ?D ?s ?c = (s1, ctx1)" by (cases "on_epoch_begin ?D ?s ?c")
  obtain shapes' scope' tb sb where
    p: "prune_parameters ?D (optimize_graph ?c) (scope ?c) (pruned_param_names ?s)
          (tokens_to_ratios (next_tokens ?D (controller ?s))) False = (shapes', scope', tb, sb)"
    by (cases "prune_parameters ?D (optimize_graph ?c) (scope ?c) (pruned_param_names ?s)
          (tokens_to_ratios (next_tokens ?D (controller ?s))) False")
  have h1: "start_epoch ?s \<le> epoch_id ?c"
    by (simp add: example_strategy_def init_def example_context_def)
  have h2: "epoch_id ?c < end_epoch ?s"
    by (simp add: example_strategy_def init_def example_context_def)
  have h3: "triggers ?s ?c"
    by (simp add: triggers_def example_strategy_def init_def)
  from p have "example_prune (optimize_graph ?c) (scope ?c) (pruned_param_names ?s)
          (tokens_to_ratios (next_tokens ?D (controller ?s))) False = (shapes', scope', tb, sb)"
    by (simp add: example_collaborators_def)
  from example_prune_covers [OF this]
  have h5: "backup_covers (var_shape (optimize_graph ?c)) shapes' sb"
    and h6: "backup_covers (scope ?c) scope' tb" by simp_all
  have h7: "groups_of_conv (optimize_graph ?c) = conv_groups ?D (var_shape (optimize_graph ?c))"
    using example_graph_in_sync by (simp add: example_context_def)
  have f: "metric_name s1 = ''top1_acc''" "eval_results ctx1 = eval_results ?c"
    "start_epoch s1 = 0" "end_epoch s1 = 10" "retrain_epoch s1 = 0" "epoch_id ctx1 = 3"
    using on_epoch_begin_fields [OF b]
    by (simp_all add: example_strategy_def init_def example_context_def)
  have o: "param_backup s1 \<noteq> None" "param_shape_backup s1 \<noteq> None"
    using on_epoch_begin_trial(1,2) [OF h1 _ h3 p b] h2 by simp_all
  have "on_epoch_end ?D s1 ctx1 = on_epoch_end_search ?D s1 ctx1"
    using f by (simp add: on_epoch_end_def triggers_def)
  moreover have "on_epoch_end_search ?D s1 ctx1 = Inr (state_after (on_epoch_end_search ?D s1 ctx1))"
    by (rule on_epoch_end_search_returns [where rs = "[1 / 2, 3 / 4]", OF _ _ o])
       (simp_all add: f example_context_def)
  ultimately have "on_epoch_end ?D s1 ctx1 = Inr (state_after (on_epoch_end ?D s1 ctx1))" by simp
  then have h9: "on_epoch_end ?D s1 ctx1
      = Inr (fst (state_after (on_epoch_end ?D s1 ctx1)), snd (state_after (on_epoch_end ?D s1 ctx1)))"
    by simp
  from trial_then_restore [OF h1 h2 h3 p h5 h6 h7 b h9] b
  show ?thesis by simp
qed

lemma on_epoch_end_search_no_metric:
  "eval_results ctx (metric_name s) = None \<Longrightarrow>
     on_epoch_end_search D s ctx = Inl (KeyError, (s, ctx))"
  by (simp add: on_epoch_end_search_def)

text \<open>
  Claim C3 as stated, with the recording pruner as its only precondition, fails in two
  ways. On a graph whose bookkeeping gives the depthwise convolution 2 groups, the example
  pruner records all it changes and \<open>on_epoch_end\<close> returns, yet the FLOPs are 28 before the
  trial and 32 after it: \<open>update_groups_of_conv\<close> after the restore recomputes the
  bookkeeping. And when the metric has no result, \<open>on_epoch_end\<close> raises \<open>KeyError\<close> at the
  reading of the reward, before any restore: the graph stays pruned, at 20 FLOPs for 32,
  and the shape backup keeps its entries.
\<close>

theorem trial_then_restore_counterexample:
  "backup_covers (var_shape (optimize_graph stale_groups_context))
      (fst (prune_parameters example_collaborators (optimize_graph stale_groups_context)
         (scope stale_groups_context) (pruned_param_names (example_strategy [49, 49]))
         (tokens_to_ratios (next_tokens example_collaborators (controller (example_strategy [49, 49]))))
         False))
      (snd (snd (snd (prune_parameters example_collaborators (optimize_graph stale_groups_context)
         (scope stale_groups_context) (pruned_param_names (example_strategy [49, 49]))
         (tokens_to_ratios (next_tokens example_collaborators (controller (example_strategy [49, 49]))))
         False))))
   \<and> on_epoch_end example_collaborators
        (fst (on_epoch_begin example_collaborators (example_strategy [49, 49]) stale_groups_context))
        (snd (on_epoch_begin example_collaborators (example_strategy [49, 49]) stale_groups_context))
      = Inr (state_after (on_epoch_end example_collaborators
        (fst (on_epoch_begin example_collaborators (example_strategy [49, 49]) stale_groups_context))
        (snd (on_epoch_begin example_collaborators (example_strategy [49, 49]) stale_groups_context))))
   \<and> flops example_collaborators (optimize_graph stale_groups_context) = 28
   \<and> flops example_collaborators (optimize_graph (snd (state_after (on_epoch_end example_collaborators
        (fst (on_epoch_begin example_collaborators (example_strategy [49, 49]) stale_groups_context))
        (snd (on_epoch_begin example_collaborators (example_strategy [49, 49]) stale_groups_context))))))
      = 32
   \<and> on_epoch_end example_collaborators
        (fst (on_epoch_begin example_collaborators (example_strategy [49, 49]) no_metric_context))
        (snd (on_epoch_begin example_collaborators (example_strategy [49, 49]) no_metric_context))
      = Inl (KeyError, on_epoch_begin example_collaborators (example_strategy [49, 49]) no_metric_context)
   \<and> flops example_collaborators (optimize_graph no_metric_context) = 32
   \<and> flops example_collaborators (optimize_graph
        (snd (on_epoch_begin example_collaborators (example_strategy [49, 49]) no_metric_context)))
      = 20
   \<and> param_shape_backup
        (fst (on_epoch_begin example_collaborators (example_strategy [49, 49]) no_metric_context))
      = Some [(''conv1_weights'', [4, 2, 1, 1]), (''conv2_dw_weights'', [4, 1, 1, 1])]"
  (is "?cover \<and> ?returns \<and> ?before \<and> ?after \<and> ?raises \<and> ?before' \<and> ?pruned \<and> ?ledger")
proof -
  let ?D = example_collaborators
  let ?s = "example_strategy [49, 49]"
  have sf: "start_epoch ?s = 0" "end_epoch ?s = 10" "retrain_epoch ?s = 0"
    "metric_name ?s = ''top1_acc''"
    by (simp_all add: example_strategy_def init_def)
  have cover: ?cover
  proof -
    obtain shapes' scope' tb sb where
      p: "example_prune (optimize_graph stale_groups_context) (scope stale_groups_context)
            (pruned_param_names ?s) (tokens_to_ratios (next_tokens ?D (controller ?s))) False
          = (shapes', scope', tb, sb)"
      by (cases "example_prune (optimize_graph stale_groups_context) (scope stale_groups_context)
            (pruned_param_names ?s) (tokens_to_ratios (next_tokens ?D (controller ?s))) False")
    have "prune_parameters ?D = example_prune" by (simp add: example_collaborators_def)
    with example_prune_covers [OF p] p show ?thesis by simp
  qed
  have returns: ?returns
  proof -
    let ?c = stale_groups_context
    obtain s1 ctx1 where b: "on_epoch_begin ?D ?s ?c = (s1, ctx1)"
      by (cases "on_epoch_begin ?D ?s ?c")
    have ce: "epoch_id ?c = 3" "eval_results ?c ''top1_acc'' = Some [1 / 2, 3 / 4]"
      by (simp_all add: stale_groups_context_def example_context_def)
    have f: "metric_name s1 = ''top1_acc''" "eval_results ctx1 = eval_results ?c"
      "start_epoch s1 = 0" "end_epoch s1 = 10" "retrain_epoch s1 = 0" "epoch_id ctx1 = 3"
      using on_epoch_begin_fields [OF b] by (simp_all add: sf ce)
    have o: "param_backup s1 \<noteq> None" "param_shape_backup s1 \<noteq> None"
      using on_epoch_begin_opens_trial(3,4) [OF _ _ _ b]
      by (simp_all add: sf ce triggers_def)
    have "on_epoch_end ?D s1 ctx1 = on_epoch_end_search ?D s1 ctx1"
      using f by (simp add: on_epoch_end_def triggers_def)
    moreover have "on_epoch_end_search ?D s1 ctx1
        = Inr (state_after (on_epoch_end_search ?D s1 ctx1))"
      by (rule on_epoch_end_search_returns [where rs = "[1 / 2, 3 / 4]", OF _ _ o])
         (simp_all add: f ce)
    ultimately show ?thesis using b by simp
  qed
  have raises: ?raises
  proof -
    let ?c = no_metric_context
    obtain s1 ctx1 where b: "on_epoch_begin ?D ?s ?c = (s1, ctx1)"
      by (cases "on_epoch_begin ?D ?s ?c")
    have ce: "epoch_id ?c = 3" "eval_results ?c ''top1_acc'' = None"
      by (simp_all add: no_metric_context_def example_context_def)
    have f: "metric_name s1 = ''top1_acc''" "eval_results ctx1 = eval_results ?c"
      "start_epoch s1 = 0" "end_epoch s1 = 10" "retrain_epoch s1 = 0" "epoch_id ctx1 = 3"
      using on_epoch_begin_fields [OF b] by (simp_all add: sf ce)
    have "on_epoch_end ?D s1 ctx1 = on_epoch_end_search ?D s1 ctx1"
      using f by (simp add: on_epoch_end_def triggers_def)
    moreover have "on_epoch_end_search ?D s1 ctx1 = Inl (KeyError, (s1, ctx1))"
      by (rule on_epoch_end_search_no_metric) (simp add: f ce)
    ultimately show ?thesis using b by simp
  qed
  have before: ?before by code_simp
  have after: ?after by code_simp
  have before': ?before' by code_simp
  have pruned: ?pruned by code_simp
  have ledger: ?ledger by code_simp
  from cover returns before after raises before' pruned ledger show ?thesis by blast
qed

section \<open>A second call of the first hook\<close>

lemma uniform_loop_length_ind:
  assumes "uniform_loop D names target flops0 model_size min_r max_r ratios ctx = Some y"
  shows "(\<forall>rs0. ratios = Some rs0 \<longrightarrow> length rs0 = length names)
        \<longrightarrow> (\<forall>rs lo hi ctx'. y = Inr (Some rs, lo, hi, ctx') \<longrightarrow> length rs = length names)"
  using assms
proof (induction rule: uniform_loop.raw_induct [rotated 1, consumes 1])
  case (1 loop D names target flops0 model_size min_r max_r ratios ctx y)
  show ?case
  proof (cases "min_r < max_r")
    case False
    with 1(2) show ?thesis by auto
  next
    case True
    define ratio where "ratio = fl (fadd max_r min_r / 2)"
    show ?thesis
    proof (cases "uniform_trial D names flops0 model_size (replicate (length names) ratio) ctx")
      case (Inl e)
      with 1(2) True show ?thesis by (auto simp: Let_def ratio_def)
    next
      case (Inr r)
      obtain pf c1 where r: "r = (pf, c1)" by (cases r)
      show ?thesis
      proof (cases "\<bar>fsub pf target\<bar> < c_0_01")
        case True
        with 1(2) \<open>min_r < max_r\<close> Inr r show ?thesis by (auto simp: Let_def ratio_def)
      next
        case far: False
        show ?thesis
        proof (cases "target < pf")
          case True
          with 1(2) \<open>min_r < max_r\<close> Inr r far
          have "loop D names target flops0 model_size min_r ratio
                  (Some (replicate (length names) ratio)) c1 = Some y"
            by (simp add: Let_def ratio_def)
          from 1(1) [OF this] show ?thesis by simp
        next
          case False
          with 1(2) \<open>min_r < max_r\<close> Inr r far
          have "loop D names target flops0 model_size ratio max_r
                  (Some (replicate (length names) ratio)) c1 = Some y"
            by (simp add: Let_def ratio_def)
          from 1(1) [OF this] show ?thesis by simp
        qed
      qed
    qed
  qed
qed

lemma uniform_loop_length:
  assumes "uniform_loop D names target flops0 model_size min_r max_r ratios ctx = Some (Inr (Some rs, lo, hi, ctx'))"
    and "\<forall>rs0. ratios = Some rs0 \<longrightarrow> length rs0 = length names"
  shows "length rs = length names"
  using uniform_loop_length_ind [OF assms(1)] assms(2) by simp

lemma get_init_tokens_length:
  assumes "get_init_tokens D s ctx = Some (Inr (tokens, ctx'))"
  shows "length tokens = length (pruned_param_names s)"
proof -
  from assms obtain rs where
    g: "get_uniform_ratios D s ctx = Some (Inr (rs, ctx'))" and t: "tokens = ratios_to_tokens rs"
    by (auto simp: get_init_tokens_def split: option.splits sum.splits prod.splits)
  from g obtain lo hi where
    "uniform_loop D (pruned_param_names s) (fl (fadd (min_ratio s) (max_ratio s) / 2))
       (flops D (eval_graph ctx)) (numel_params (eval_graph ctx)) 0 1 None ctx
       = Some (Inr (Some rs, lo, hi, ctx'))"
    by (auto simp: get_uniform_ratios_def Let_def split: option.splits sum.splits prod.splits)
  from uniform_loop_length [OF this] have "length rs = length (pruned_param_names s)" by simp
  with t show ?thesis by (simp add: ratios_to_tokens_def)
qed

lemma on_compression_begin_appends:
  assumes "on_compression_begin D s ctx = Some (Inr (s', ctx'))"
  shows "pruned_param_names s' = pruned_param_names s
           @ filter (re_match D (pruned_params s)) (all_parameters (eval_graph ctx))"
    and "pruned_params s' = pruned_params s"
    and "\<exists>tokens. current_tokens s' = Some tokens \<and> length tokens = length (pruned_param_names s')"
  using assms
  by (auto simp: on_compression_begin_def Let_def dest: get_init_tokens_length
      split: option.splits sum.splits prod.splits)

lemma on_compression_begin_ratios:
  assumes "on_compression_begin D s ctx = Some (Inr (s', ctx'))"
  shows "min_ratio s' = min_ratio s" and "max_ratio s' = max_ratio s"
  using assms
  by (auto simp: on_compression_begin_def Let_def split: option.splits sum.splits prod.splits)

lemma on_compression_begin_first_pass:
  assumes "names = pruned_param_names s
             @ filter (re_match D (pruned_params s)) (all_parameters (eval_graph ctx))"
    and "uniform_trial D names (flops D (eval_graph ctx)) (numel_params (eval_graph ctx))
           (replicate (length names) (fl (fadd 1 0 / 2))) ctx = Inr (pf, ctx')"
    and "\<bar>fsub pf (fl (fadd (min_ratio s) (max_ratio s) / 2))\<bar> < c_0_01"
  shows "\<exists>s'. on_compression_begin D s ctx = Some (Inr (s', ctx'))"
proof -
  have "uniform_loop D names (fl (fadd (min_ratio s) (max_ratio s) / 2))
          (flops D (eval_graph ctx)) (numel_params (eval_graph ctx)) 0 1 None ctx
        = Some (Inr (Some (replicate (length names) (fl (fadd 1 0 / 2))), 0, 1, ctx'))"
    using assms(2,3) by (subst uniform_loop.simps) (simp add: Let_def)
  then show ?thesis
    using assms(1)
    by (simp add: on_compression_begin_def get_init_tokens_def get_uniform_ratios_def Let_def)
qed

text \<open>
  Claim C9. \<open>on_compression_begin\<close> appends the matched names to the list of selected
  parameters and does not clear it: after a second call on a graph with the same
  parameters every matched name is in the list twice, the list is not duplicate-free, and
  the token vector built from it has one entry for each element of the list, which is more
  entries than there are selected parameters.
\<close>

theorem second_compression_begin_duplicates:
  assumes "on_compression_begin D s ctx = Some (Inr (s1, ctx1))"
    and "on_compression_begin D s1 ctx2 = Some (Inr (s2, ctx3))"
    and "all_parameters (eval_graph ctx2) = all_parameters (eval_graph ctx)"
    and "m = filter (re_match D (pruned_params s)) (all_parameters (eval_graph ctx))"
  shows "pruned_param_names s1 = pruned_param_names s @ m
         \<and> pruned_param_names s2 = pruned_param_names s @ m @ m
         \<and> (\<exists>tokens. current_tokens s2 = Some tokens
               \<and> length tokens = length (pruned_param_names s) + 2 * length m
               \<and> (m \<noteq> [] \<longrightarrow> \<not> distinct (pruned_param_names s2)
                     \<and> card (set (pruned_param_names s2)) < length tokens))"
proof -
  note a = on_compression_begin_appends [OF assms(1)]
  note b = on_compression_begin_appends [OF assms(2)]
  have n: "pruned_param_names s2 = pruned_param_names s @ m @ m"
    using a(1,2) b(1) assms(3,4) by simp
  from b(3) obtain tokens where t: "current_tokens s2 = Some tokens"
    "length tokens = length (pruned_param_names s2)" by blast
  have d: "\<not> distinct (pruned_param_names s2)" if "m \<noteq> []"
  proof -
    from that obtain x where "x \<in> set m" by (cases m) auto
    then show ?thesis using n by auto
  qed
  have c: "card (set (pruned_param_names s2)) < length tokens" if "m \<noteq> []"
    using d [OF that] t(2) card_length [of "pruned_param_names s2"] card_distinct [of "pruned_param_names s2"]
    by (cases "card (set (pruned_param_names s2)) = length (pruned_param_names s2)") auto
  have n1: "pruned_param_names s1 = pruned_param_names s @ m"
    using a(1) assms(4) by simp
  from n1 n t d c show ?thesis by auto
qed

theorem second_compression_begin_duplicates_witness:
  "pruned_param_names (fst (state_after (the (on_compression_begin example_collaborators
       (fst (state_after (the (on_compression_begin example_collaborators
          (init [] 0 10 (fl (1 / 5)) (fl (3 / 10)) ''top1_acc'' ''conv'' 0) (example_context 0)))))
       (example_context 0)))))
     = [] @ [''conv1_weights'', ''conv2_dw_weights''] @ [''conv1_weights'', ''conv2_dw_weights'']
   \<and> map_option length (current_tokens (fst (state_after (the (on_compression_begin
       example_collaborators
       (fst (state_after (the (on_compression_begin example_collaborators
          (init [] 0 10 (fl (1 / 5)) (fl (3 / 10)) ''top1_acc'' ''conv'' 0) (example_context 0)))))
       (example_context 0)))))) = Some 4"
proof -
  let ?D = example_collaborators
  let ?s = "init [] 0 10 (fl (1 / 5)) (fl (3 / 10)) ''top1_acc'' ''conv'' 0"
  let ?c = "example_context 0"
  let ?m = "[''conv1_weights'', ''conv2_dw_weights'']"
  have e: "eval_graph ?c = example_graph" by (simp add: example_context_def)
  have k: "filter (re_match ?D ''conv'') (all_parameters example_graph) = ?m"
    "flops ?D example_graph = 32" "numel_params example_graph = 16"
    "fl (fadd 1 0 / 2) = 1 / 2" "fl (fadd (fl (1 / 5)) (fl (3 / 10)) / 2) = 1 / 4"
    by code_simp+
  have "case uniform_trial ?D ?m 32 16 [1 / 2, 1 / 2] ?c of
          Inl e \<Rightarrow> False | Inr (pf, c) \<Rightarrow> \<bar>fsub pf (1 / 4)\<bar> < c_0_01"
    by code_simp
  then obtain pf1 c1 where t1: "uniform_trial ?D ?m 32 16 [1 / 2, 1 / 2] ?c = Inr (pf1, c1)"
    and n1: "\<bar>fsub pf1 (1 / 4)\<bar> < c_0_01"
    by (auto split: sum.splits)
  have "\<exists>s'. on_compression_begin ?D ?s ?c = Some (Inr (s', c1))"
    by (rule on_compression_begin_first_pass [where names = ?m and pf = pf1])
       (simp_all add: init_def e k t1 n1)
  then obtain s1 where b1: "on_compression_begin ?D ?s ?c = Some (Inr (s1, c1))" by blast
  have f1: "pruned_param_names s1 = ?m" "pruned_params s1 = ''conv''"
    "min_ratio s1 = fl (1 / 5)" "max_ratio s1 = fl (3 / 10)"
    using on_compression_begin_appends(1,2) [OF b1] on_compression_begin_ratios [OF b1]
    by (simp_all add: init_def e k)
  have "case uniform_trial ?D (?m @ ?m) 32 16 [1 / 2, 1 / 2, 1 / 2, 1 / 2] ?c of
          Inl e \<Rightarrow> False | Inr (pf, c) \<Rightarrow> \<bar>fsub pf (1 / 4)\<bar> < c_0_01"
    by code_simp
  then obtain pf2 c2 where t2: "uniform_trial ?D (?m @ ?m) 32 16 [1 / 2, 1 / 2, 1 / 2, 1 / 2] ?c
      = Inr (pf2, c2)"
    and n2: "\<bar>fsub pf2 (1 / 4)\<bar> < c_0_01"
    by (auto split: sum.splits)
  have "\<exists>s'. on_compression_begin ?D s1 ?c = Some (Inr (s', c2))"
    by (rule on_compression_begin_first_pass [where names = "?m @ ?m" and pf = pf2])
       (use t2 n2 in \<open>simp_all add: f1 e k\<close>)
  then obtain s2 where b2: "on_compression_begin ?D s1 ?c = Some (Inr (s2, c2))" by blast
  have m: "?m = filter (re_match ?D (pruned_params ?s)) (all_parameters (eval_graph ?c))"
    by (simp add: init_def e k)
  from second_compression_begin_duplicates [OF b1 b2 refl m] b1 b2
  show ?thesis by (auto simp: state_after_def init_def)
qed

section \<open>The final branch\<close>

lemma on_epoch_end_final_raises:
  assumes "param_backup s = Some tb" and "tb \<noteq> []"
  shows "on_epoch_end_final D s ctx = Inl (AttributeError, (s, ctx))"
proof -
  obtain e rest where "tb = e # rest" using assms(2) by (cases tb) auto
  then show ?thesis using assms(1) by (simp add: on_epoch_end_final_def)
qed

text \<open>
  Claim C1 at the strategy that \<open>on_compression_begin\<close> leaves on the example graph, at
  \<open>epoch_id = end_epoch = 10\<close>. \<open>on_epoch_begin\<close> opens a trial that halves both
  convolutions and fills the two backups; \<open>on_epoch_end\<close> then raises \<open>AttributeError\<close> at
  the first tensor it is to restore, with the strategy and the context as \<open>on_epoch_begin\<close>
  left them: nothing is restored (20 FLOPs for 32 before the trial), no ratio of the
  controller's best tokens is applied, and both backups keep their entries.
\<close>

theorem final_commit_raises:
  "on_epoch_end example_collaborators
      (fst (on_epoch_begin example_collaborators (example_strategy [49, 49]) (example_context 10)))
      (snd (on_epoch_begin example_collaborators (example_strategy [49, 49]) (example_context 10)))
     = Inl (AttributeError,
            on_epoch_begin example_collaborators (example_strategy [49, 49]) (example_context 10))
   \<and> param_backup
        (fst (on_epoch_begin example_collaborators (example_strategy [49, 49]) (example_context 10)))
     = Some [(''conv1_weights'', [1, 2, 3, 4, 5, 6, 7, 8]), (''conv2_dw_weights'', [1, 2, 3, 4])]
   \<and> param_shape_backup
        (fst (on_epoch_begin example_collaborators (example_strategy [49, 49]) (example_context 10)))
     = Some [(''conv1_weights'', [4, 2, 1, 1]), (''conv2_dw_weights'', [4, 1, 1, 1])]
   \<and> var_shape (optimize_graph
        (snd (on_epoch_begin example_collaborators (example_strategy [49, 49]) (example_context 10))))
        ''conv1_weights'' = Some [2, 2, 1, 1]
   \<and> flops example_collaborators (optimize_graph
        (snd (on_epoch_begin example_collaborators (example_strategy [49, 49]) (example_context 10))))
     = 20
   \<and> flops example_collaborators (optimize_graph (example_context 10)) = 32"
  (is "?raises \<and> ?tensors \<and> ?shapes \<and> ?pruned \<and> ?after \<and> ?before")
proof -
  let ?D = example_collaborators
  let ?s = "example_strategy [49, 49]"
  let ?c = "example_context 10"
  have tensors: ?tensors by code_simp
  have shapes: ?shapes by code_simp
  have pruned: ?pruned by code_simp
  have after: ?after by code_simp
  have before: ?before by code_simp
  obtain s1 ctx1 where b: "on_epoch_begin ?D ?s ?c = (s1, ctx1)"
    by (cases "on_epoch_begin ?D ?s ?c")
  have f: "end_epoch s1 = 10" "epoch_id ctx1 = 10"
    using on_epoch_begin_fields [OF b]
    by (simp_all add: example_strategy_def init_def example_context_def)
  have "on_epoch_end ?D s1 ctx1 = on_epoch_end_final ?D s1 ctx1"
    using f by (simp add: on_epoch_end_at_end_epoch)
  moreover have "on_epoch_end_final ?D s1 ctx1 = Inl (AttributeError, (s1, ctx1))"
    by (rule on_epoch_end_final_raises
          [where tb = "[(''conv1_weights'', [1, 2, 3, 4, 5, 6, 7, 8]), (''conv2_dw_weights'', [1, 2, 3, 4])]"])
       (use tensors b in simp_all)
  ultimately have raises: ?raises using b by simp
  from raises tensors shapes pruned after before show ?thesis by blast
qed

section \<open>The constraint evaluator on the example\<close>

text \<open>
  Claim C2 at the example graph with both convolutions selected and the tokens
  \<open>[50, 50]\<close>. \<open>_constrain_func\<close> returns with every shape as before the call, but with the
  group count of the depthwise convolution as \<open>update_groups_of_conv\<close> computed it on the
  pruned shapes: 2 for a filter of 4, and the FLOPs of the evaluation graph are 28 after
  the call for 32 before it.
\<close>

theorem constrain_func_leaves_stale_groups:
  "flops example_collaborators (eval_graph (example_context 0)) = 32
   \<and> groups_of_conv (eval_graph (example_context 0)) ''conv2_dw_weights'' = Some 4
   \<and> (case constrain_func example_collaborators (example_strategy [49, 49]) [50, 50]
             (example_context 0) of
         Inl (e, ctx') \<Rightarrow> False
       | Inr (ok, ctx') \<Rightarrow>
           flops example_collaborators (eval_graph ctx') = 28
           \<and> var_shape (eval_graph ctx') ''conv1_weights'' = Some [4, 2, 1, 1]
           \<and> var_shape (eval_graph ctx') ''conv2_dw_weights'' = Some [4, 1, 1, 1]
           \<and> var_shape (eval_graph ctx') ''fc_w'' = Some [2, 2]
           \<and> groups_of_conv (eval_graph ctx') ''conv2_dw_weights'' = Some 2)"
  by code_simp

section \<open>The codec in floats\<close>

lemma rne_error: "\<bar>of_int (rne y) - y\<bar> \<le> 1 / 2"
  unfolding rne_def Let_def by (auto simp: abs_le_iff)

lemma rne_nonneg: "0 \<le> y \<Longrightarrow> 0 \<le> rne y"
  unfolding rne_def Let_def by auto

lemma pow2_pos: "0 < pow2 e"
  by (simp add: pow2_def)

lemma pow2_mono_neg: "e \<le> - int k \<Longrightarrow> pow2 e \<le> 1 / 2 ^ k"
proof -
  assume a: "e \<le> - int k"
  show ?thesis
  proof (cases "0 \<le> e")
    case True
    with a have "k = 0" "e = 0" by auto
    then show ?thesis by (simp add: pow2_def)
  next
    case False
    then have "k \<le> nat (- e)" using a by auto
    then have "(2::real) ^ k \<le> 2 ^ nat (- e)" by (simp add: power_increasing)
    then show ?thesis using False by (simp add: pow2_def frac_le)
  qed
qed

lemma bit_length_le: "n < 2 ^ k \<Longrightarrow> bit_length n \<le> k"
proof (induction k arbitrary: n)
  case 0
  then show ?case by (simp add: bit_length.simps)
next
  case (Suc k)
  show ?case
  proof (cases "n = 0")
    case True
    then show ?thesis by (simp add: bit_length.simps)
  next
    case False
    from Suc.prems have "n div 2 < 2 ^ k" by auto
    from Suc.IH [OF this] False show ?thesis by (subst bit_length.simps) simp
  qed
qed

lemma bit_length_pos: "0 < n \<Longrightarrow> 0 < bit_length n"
  by (subst bit_length.simps) simp

lemma binade_upper:
  assumes "\<bar>x\<bar> < 2 ^ k" and "0 < k"
  shows "binade x \<le> int k - 1"
proof (cases "1 \<le> \<bar>x\<bar>")
  case True
  have "\<lfloor>\<bar>x\<bar>\<rfloor> < 2 ^ k" using assms(1) by (simp add: floor_less_iff)
  then have "nat \<lfloor>\<bar>x\<bar>\<rfloor> < 2 ^ k" by (simp add: nat_less_iff)
  from bit_length_le [OF this] True show ?thesis by (simp add: binade_def Let_def)
next
  case False
  show ?thesis
  proof (cases "x = 0")
    case True
    then show ?thesis using assms(2) by (simp add: binade_def Let_def)
  next
    case nz: False
    have "1 \<le> 1 / \<bar>x\<bar>" using False nz by (simp add: field_simps)
    then have "1 \<le> \<lfloor>1 / \<bar>x\<bar>\<rfloor>" by (simp add: le_floor_iff)
    then have "0 < nat \<lfloor>1 / \<bar>x\<bar>\<rfloor>" by simp
    from bit_length_pos [OF this] have "1 \<le> bit_length (nat \<lfloor>1 / \<bar>x\<bar>\<rfloor>)" by simp
    then show ?thesis using False assms(2) by (auto simp: binade_def Let_def)
  qed
qed

lemma fl_error:
  assumes "\<bar>x\<bar> < 2 ^ k" and "0 < k" and "k \<le> 52"
  shows "\<bar>fl x - x\<bar> \<le> 1 / 2 ^ (54 - k)"
proof (cases "x = 0")
  case True
  then show ?thesis by (simp add: fl_def)
next
  case False
  define u where "u = pow2 (max (binade x) (- 1022) - 52)"
  have up: "0 < u" by (simp add: u_def pow2_pos)
  have "max (binade x) (- 1022) - 52 \<le> - int (53 - k)"
    using binade_upper [OF assms(1,2)] assms(3) by auto
  from pow2_mono_neg [OF this] have ub: "u \<le> 1 / 2 ^ (53 - k)" by (simp add: u_def)
  have "fl x - x = (of_int (rne (x / u)) - x / u) * u"
    using False up by (simp add: fl_def u_def [symmetric] Let_def algebra_simps)
  then have "\<bar>fl x - x\<bar> = \<bar>of_int (rne (x / u)) - x / u\<bar> * u"
    using up by (simp add: abs_mult)
  also have "\<dots> \<le> (1 / 2) * u"
    using rne_error [of "x / u"] up by (intro mult_right_mono) auto
  finally have "\<bar>fl x - x\<bar> \<le> u / 2" by simp
  moreover have "u / 2 \<le> 1 / 2 ^ (54 - k)"
  proof -
    have "54 - k = Suc (53 - k)" using assms(3) by simp
    then show ?thesis using ub by simp
  qed
  ultimately show ?thesis by simp
qed

lemma fl_nonneg: "0 \<le> x \<Longrightarrow> 0 \<le> fl x"
  by (auto simp: fl_def Let_def intro!: mult_nonneg_nonneg rne_nonneg
      simp: pow2_pos less_imp_le)

lemma c_0_01_value: "c_0_01 = 5764607523034235 / 2 ^ 59"
  by code_simp

lemma rne_of_int: "rne (of_int m) = m"
  by (simp add: rne_def)

lemma fl_of_int:
  assumes "\<bar>of_int t :: real\<bar> < 2 ^ k" and "0 < k" and "k \<le> 52"
  shows "fl (of_int t) = of_int t"
proof (cases "t = 0")
  case True
  then show ?thesis by (simp add: fl_def)
next
  case False
  define e where "e = max (binade (of_int t)) (- 1022) - 52"
  define n where "n = nat (- e)"
  have "e \<le> 0" using binade_upper [OF assms(1,2)] assms(3) by (auto simp: e_def)
  then have u: "pow2 e = 1 / 2 ^ n" by (auto simp: pow2_def n_def)
  have "of_int t / pow2 e = (of_int (t * 2 ^ n) :: real)" by (simp add: u)
  then have "rne (of_int t / pow2 e) = t * 2 ^ n" by (simp only: rne_of_int)
  then show ?thesis using False by (simp add: fl_def e_def [symmetric] Let_def u)
qed

lemma py_float_small: "0 \<le> t \<Longrightarrow> t \<le> 100 \<Longrightarrow> py_float t = of_int t"
  unfolding py_float_def by (rule fl_of_int [where k = 7]) auto

lemma round_trip_bounds:
  assumes "0 \<le> r" and "r < 1"
  shows "token_to_ratio (ratio_to_token r) \<le> r + 1 / 2 ^ 52"
    and "r - token_to_ratio (ratio_to_token r) < 1 / 100 + 1 / 2 ^ 52"
    and "0 \<le> ratio_to_token r" and "ratio_to_token r \<le> 100"
proof -
  define c where "c = c_0_01"
  define a :: real where "a = 1 / 2 ^ 47"
  define b :: real where "b = 1 / 2 ^ 53"
  have cv: "c = 5764607523034235 / 2 ^ 59" by (simp add: c_def c_0_01_value)
  have c1: "1 / 100 < c" and c2: "c < 1 / 100 + 1 / 2 ^ 60" and c3: "100 * c < 2"
    by (simp_all add: cv)
  have fin: "c * a + b \<le> 1 / 2 ^ 52" "c + c * a + b < 1 / 100 + 1 / 2 ^ 52" "a < 1"
    by (simp_all add: cv a_def b_def)
  have cpos: "0 < c" using c1 by simp
  define x where "x = r / c"
  define q where "q = fl x"
  define t where "t = \<lfloor>q\<rfloor>"
  have x0: "0 \<le> x" using assms(1) cpos by (simp add: x_def)
  have "r / c < 1 / c" using assms(2) cpos by (simp add: divide_strict_right_mono)
  moreover have "1 / c < 100" using c1 cpos by (simp add: field_simps)
  ultimately have x100: "x < 100" by (simp add: x_def)
  have "\<bar>x\<bar> < 2 ^ 7" using x0 x100 by simp
  from fl_error [OF this] have "\<bar>q - x\<bar> \<le> a" by (simp add: q_def a_def)
  then have qe: "q \<le> x + a" "x - a \<le> q" by linarith+
  have q0: "0 \<le> q" using x0 by (simp add: q_def fl_nonneg)
  have tok: "ratio_to_token r = t"
    using q0 by (simp add: ratio_to_token_def py_int_def t_def q_def x_def c_def)
  have t0: "0 \<le> t" using q0 by (simp add: t_def)
  have tq: "of_int t \<le> q" and qt: "q < of_int t + 1" by (simp_all add: t_def)
  have "of_int t < (101 :: real)" using tq qe x100 fin(3) by linarith
  then have t100: "t \<le> 100" by linarith
  have pf: "py_float t = of_int t" using py_float_small [OF t0 t100] .
  define y where "y = of_int t * c"
  have rt: "token_to_ratio (ratio_to_token r) = fl y"
    by (simp add: tok token_to_ratio_def fmul_def pf y_def c_def)
  have y0: "0 \<le> y" using t0 cpos by (simp add: y_def)
  have "y \<le> 100 * c" using t100 cpos by (simp add: y_def)
  then have "y < 2" using c3 by linarith
  then have "\<bar>y\<bar> < 2 ^ 1" using y0 by simp
  from fl_error [OF this] have "\<bar>fl y - y\<bar> \<le> b" by (simp add: b_def)
  then have ye: "fl y \<le> y + b" "y - b \<le> fl y" by linarith+
  have xc: "x * c = r" using cpos by (simp add: x_def)
  have up: "y \<le> r + c * a"
  proof -
    have "of_int t \<le> x + a" using tq qe by linarith
    then have "of_int t * c \<le> (x + a) * c" using cpos by (simp add: mult_right_mono)
    then show ?thesis using xc by (simp add: y_def algebra_simps)
  qed
  have lo: "r - c - c * a < y"
  proof -
    have "x - a - 1 < of_int t" using qt qe by linarith
    then have "(x - a - 1) * c < of_int t * c" using cpos by (simp add: mult_strict_right_mono)
    then show ?thesis using xc by (simp add: y_def algebra_simps)
  qed
  show "token_to_ratio (ratio_to_token r) \<le> r + 1 / 2 ^ 52"
    unfolding rt using ye up fin by linarith
  show "r - token_to_ratio (ratio_to_token r) < 1 / 100 + 1 / 2 ^ 52"
    unfolding rt using ye lo fin by linarith
  show "0 \<le> ratio_to_token r" "ratio_to_token r \<le> 100"
    using tok t0 t100 by simp_all
qed

text \<open>
  Claim C7, as amended. For every ratio \<open>r\<close> in \<open>[0, 1)\<close> the round trip through
  \<open>_ratios_to_tokens\<close> and \<open>_tokens_to_ratios\<close>, computed in binary64 as the code does, exceeds
  \<open>r\<close> by at most \<open>1 / 2 ^ 52\<close> and falls short of it by less than \<open>0.01 + 1 / 2 ^ 52\<close>: a
  quantization floor up to the rounding of the two float operations.
\<close>

theorem round_trip_within_rounding:
  assumes "0 \<le> r" and "r < 1"
  shows "token_to_ratio (ratio_to_token r) \<le> r + 1 / 2 ^ 52
         \<and> r - token_to_ratio (ratio_to_token r) < 1 / 100 + 1 / 2 ^ 52"
  using round_trip_bounds(1,2) [OF assms] by simp

theorem round_trip_within_rounding_witness:
  "token_to_ratio (ratio_to_token (fl (35 / 100))) \<le> fl (35 / 100) + 1 / 2 ^ 52
   \<and> fl (35 / 100) - token_to_ratio (ratio_to_token (fl (35 / 100))) < 1 / 100 + 1 / 2 ^ 52"
proof -
  have a: "0 \<le> fl (35 / 100)" by code_simp
  have b: "fl (35 / 100) < 1" by code_simp
  from round_trip_within_rounding [OF a b] show ?thesis .
qed

text \<open>
  Claim C7 as stated fails at both ends. The float \<open>0.35\<close> gives token 35, and \<open>35 * 0.01\<close>
  is the next float above \<open>0.35\<close>: the round trip is a ceiling there. The float \<open>0.59\<close> gives
  token 58, since \<open>0.59 / 0.01\<close> rounds below 59, and \<open>58 * 0.01\<close> falls short of \<open>0.59\<close> by
  more than \<open>0.01\<close>.
\<close>

theorem round_trip_counterexample:
  "0 \<le> fl (35 / 100) \<and> fl (35 / 100) < 1
   \<and> ratio_to_token (fl (35 / 100)) = 35
   \<and> fl (35 / 100) < token_to_ratio (ratio_to_token (fl (35 / 100)))
   \<and> 0 \<le> fl (59 / 100) \<and> fl (59 / 100) < 1
   \<and> ratio_to_token (fl (59 / 100)) = 58
   \<and> 1 / 100 < fl (59 / 100) - token_to_ratio (ratio_to_token (fl (59 / 100)))
   \<and> c_0_01 < fl (59 / 100) - token_to_ratio (ratio_to_token (fl (59 / 100)))"
  (is "?a \<and> ?b \<and> ?c \<and> ?d \<and> ?e \<and> ?f \<and> ?g \<and> ?h \<and> ?i")
proof -
  have ?a by code_simp
  moreover have ?b by code_simp
  moreover have ?c by code_simp
  moreover have ?d by code_simp
  moreover have ?e by code_simp
  moreover have ?f by code_simp
  moreover have ?g by code_simp
  moreover have ?h by code_simp
  moreover have ?i by code_simp
  ultimately show ?thesis by blast
qed

end
